theory Spec2Isabelle
  imports Main "HOL-Library.Word"
begin

unbundle bit_operations_syntax

section \<open>Data model (serial-midi.h)\<close>

type_synonym u8 = "8 word"
type_synonym u16 = "16 word"

text \<open>\<^verbatim>\<open>int16_t\<close>: a 16-bit word read with \<^const>\<open>sint\<close>.\<close>
type_synonym i16 = "16 word"

text \<open>A C \<^verbatim>\<open>int\<close> on the target (32 bits): the type every operand of the source's
  arithmetic is promoted to.\<close>
type_synonym cint = "32 word"

subsection \<open>The macros of the header\<close>

definition CHANNEL_VOICE_MASK :: u8 where "CHANNEL_VOICE_MASK = 0x80"
definition SYSTEM_TUNE_REQUEST :: u8 where "SYSTEM_TUNE_REQUEST = 0xF6"

definition C_NOTE_ON :: u8 where "C_NOTE_ON = 0x90"
definition C_NOTE_OFF :: u8 where "C_NOTE_OFF = 0x80"
definition C_POLYPHONIC_AFTERTOUCH :: u8 where "C_POLYPHONIC_AFTERTOUCH = 0xA0"
definition C_PITCH_WHEEL :: u8 where "C_PITCH_WHEEL = 0xE0"
definition C_CONTROL_CHANGE :: u8 where "C_CONTROL_CHANGE = 0xB0"
definition C_PROGRAM_CHANGE :: u8 where "C_PROGRAM_CHANGE = 0xC0"
definition C_CHANNEL_AFTERTOUCH :: u8 where "C_CHANNEL_AFTERTOUCH = 0xD0"

definition RT_TIMING_CLOCK :: u8 where "RT_TIMING_CLOCK = 0xF8"
definition RT_START :: u8 where "RT_START = 0xFA"
definition RT_CONTINUE :: u8 where "RT_CONTINUE = 0xFB"
definition RT_STOP :: u8 where "RT_STOP = 0xFC"
definition RT_ACTIVE_SENSING :: u8 where "RT_ACTIVE_SENSING = 0xFE"
definition RT_RESET :: u8 where "RT_RESET = 0xFF"

text \<open>The two members of \<^verbatim>\<open>enum midi_control_change\<close> that the encoder uses.\<close>
definition CTL_MSB_MODWHEEL :: u8 where "CTL_MSB_MODWHEEL = 0x01"
definition CTL_LSB_MODWHEEL :: u8 where "CTL_LSB_MODWHEEL = 0x21"

text \<open>\<^verbatim>\<open>enum midi_state_machine\<close>; only its first member is ever stored.\<close>
definition RESET :: u8 where "RESET = 0"

subsection \<open>The object's state\<close>

text \<open>The six \<^verbatim>\<open>uint8_t\<close> members of the class. The serial port and the five
  delegates are not state of the codec: what is written to the port is returned by the
  sending functions, and each call of a delegate is returned by the parser as a value.\<close>

record serial_midi =
  global_running_status_tx :: u8
  global_running_status_rx :: u8
  global_3rd_byte_flag :: u8
  global_midi_c2 :: u8
  global_midi_c3 :: u8
  global_midi_state :: u8

text \<open>One call of one of the five delegates registered at construction.\<close>

datatype delegate_call =
    midi_note_on_delegate u8 u8
  | realtime_handler_delegate u8
  | midi_note_off_delegate u8 u8
  | midi_control_change_delegate u8 u8
  | midi_pitchwheel_delegate u8 u8

section \<open>Constructor\<close>

text \<open>The constructor body assigns five of the six state members. Its argument is the
  content of the object's storage when the body starts: the value of a member that the
  body does not assign is whatever the storage held.\<close>

definition SerialMidi :: "serial_midi \<Rightarrow> serial_midi" where
  "SerialMidi storage =
     storage\<lparr>global_running_status_rx := 0,
             global_3rd_byte_flag := 0,
             global_midi_c2 := 0,
             global_midi_c3 := 0,
             global_midi_state := RESET\<rparr>"

section \<open>Encoder\<close>

text \<open>\<^verbatim>\<open>serial_port.write(&buf[off], n)\<close>: the \<open>n\<close> bytes of \<open>buf\<close> from index
  \<open>off\<close> go to the port. The sending functions fill \<open>buf[0..2]\<close> of a four-byte
  array and never touch \<open>buf[3]\<close>, so the array is modelled by its assigned prefix.\<close>

definition serial_port_write :: "u8 list \<Rightarrow> nat \<Rightarrow> nat \<Rightarrow> u8 list" where
  "serial_port_write buf off n = take n (drop off buf)"

definition NoteON :: "u8 \<Rightarrow> u8 \<Rightarrow> u8 \<Rightarrow> serial_midi \<Rightarrow> u8 list \<times> serial_midi" where
  "NoteON channel key velocity s =
     (let buf = [C_NOTE_ON OR channel, key, velocity] in
      if global_running_status_tx s = buf ! 0
      then (serial_port_write buf 1 2, s)
      else (serial_port_write buf 0 3, s\<lparr>global_running_status_tx := buf ! 0\<rparr>))"

definition NoteOFF :: "u8 \<Rightarrow> u8 \<Rightarrow> u8 \<Rightarrow> serial_midi \<Rightarrow> u8 list \<times> serial_midi" where
  "NoteOFF channel key velocity s =
     (let buf = [C_NOTE_OFF OR channel, key, velocity] in
      if global_running_status_tx s = buf ! 0
      then (serial_port_write buf 1 2, s)
      else (serial_port_write buf 0 3, s\<lparr>global_running_status_tx := buf ! 0\<rparr>))"

definition ControlChange :: "u8 \<Rightarrow> u8 \<Rightarrow> u8 \<Rightarrow> serial_midi \<Rightarrow> u8 list \<times> serial_midi" where
  "ControlChange channel controller val s =
     (let buf = [C_CONTROL_CHANGE OR channel, controller, val] in
      if global_running_status_tx s = buf ! 0
      then (serial_port_write buf 1 2, s)
      else (serial_port_write buf 0 3, s\<lparr>global_running_status_tx := buf ! 0\<rparr>))"

definition ChannelAfterTouch :: "u8 \<Rightarrow> u8 \<Rightarrow> serial_midi \<Rightarrow> u8 list \<times> serial_midi" where
  "ChannelAfterTouch channel val s =
     (let buf = [C_CHANNEL_AFTERTOUCH OR channel, val] in
      if global_running_status_tx s = buf ! 0
      then (serial_port_write buf 1 1, s)
      else (serial_port_write buf 0 2, s\<lparr>global_running_status_tx := buf ! 0\<rparr>))"

text \<open>\<^verbatim>\<open>~(CHANNEL_VOICE_MASK) & x\<close>: the macro is an \<^verbatim>\<open>int\<close>, so the complement and the
  conjunction are taken at \<^verbatim>\<open>int\<close> width, and the result is cut to a byte when it is
  stored in a \<^verbatim>\<open>uint8_t\<close>.\<close>

definition mask_data :: "cint \<Rightarrow> u8" where
  "mask_data x = ucast (NOT (ucast CHANNEL_VOICE_MASK) AND x)"

definition ModWheel_u16 :: "u8 \<Rightarrow> u16 \<Rightarrow> serial_midi \<Rightarrow> u8 list \<times> serial_midi" where
  "ModWheel_u16 channel val s =
     (let (w1, s1) = ControlChange channel CTL_LSB_MODWHEEL (mask_data (ucast val)) s;
          (w2, s2) = ControlChange channel CTL_MSB_MODWHEEL
                       (mask_data (drop_bit 7 (ucast val))) s1
      in (w1 @ w2, s2))"

definition ModWheel_u8 :: "u8 \<Rightarrow> u8 \<Rightarrow> serial_midi \<Rightarrow> u8 list \<times> serial_midi" where
  "ModWheel_u8 channel val s =
     ControlChange channel CTL_MSB_MODWHEEL (mask_data (ucast val)) s"

text \<open>The overload taking an \<^verbatim>\<open>int\<close>, defined in the header: it casts to \<^verbatim>\<open>uint8_t\<close>.\<close>

definition ModWheel_int :: "u8 \<Rightarrow> cint \<Rightarrow> serial_midi \<Rightarrow> u8 list \<times> serial_midi" where
  "ModWheel_int channel val s = ModWheel_u8 channel (ucast val) s"

definition PitchWheel :: "u8 \<Rightarrow> u16 \<Rightarrow> serial_midi \<Rightarrow> u8 list \<times> serial_midi" where
  "PitchWheel channel val s =
     (let buf = [C_PITCH_WHEEL OR channel,
                 mask_data (ucast val),
                 mask_data (drop_bit 7 (ucast val))] in
      if global_running_status_tx s = buf ! 0
      then (serial_port_write buf 1 2, s)
      else (serial_port_write buf 0 3, s\<lparr>global_running_status_tx := buf ! 0\<rparr>))"

text \<open>The signed overload: \<^verbatim>\<open>uint16_t(val + 0x2000)\<close>, the sum taken on \<^verbatim>\<open>int\<close>.\<close>

definition PitchWheel_i16 :: "u8 \<Rightarrow> i16 \<Rightarrow> serial_midi \<Rightarrow> u8 list \<times> serial_midi" where
  "PitchWheel_i16 channel val s =
     (let pitch = (word_of_int (sint val + 0x2000) :: u16) in
      PitchWheel channel pitch s)"

definition TimingClock :: "serial_midi \<Rightarrow> u8 list \<times> serial_midi" where
  "TimingClock s = (serial_port_write [RT_TIMING_CLOCK] 0 1, s)"

definition Start :: "serial_midi \<Rightarrow> u8 list \<times> serial_midi" where
  "Start s = (serial_port_write [RT_START] 0 1, s)"

definition Continue :: "serial_midi \<Rightarrow> u8 list \<times> serial_midi" where
  "Continue s = (serial_port_write [RT_CONTINUE] 0 1, s)"

definition Stop :: "serial_midi \<Rightarrow> u8 list \<times> serial_midi" where
  "Stop s = (serial_port_write [RT_STOP] 0 1, s)"

definition Active_Sensing :: "serial_midi \<Rightarrow> u8 list \<times> serial_midi" where
  "Active_Sensing s = (serial_port_write [RT_ACTIVE_SENSING] 0 1, s)"

definition Reset :: "serial_midi \<Rightarrow> u8 list \<times> serial_midi" where
  "Reset s = (serial_port_write [RT_RESET] 0 1, s)"

section \<open>Decoder\<close>

text \<open>One call of the parser. The first argument is what \<^verbatim>\<open>serial_port.read(&c, 1)\<close>
  delivers: \<open>None\<close> when it returns 0, \<open>Some c\<close> when it stores a byte in \<open>c\<close>. The result
  is the list of delegate calls made, in order, and the state afterwards. The branches
  are those of the source, in its order.\<close>

definition ReceiveParser :: "u8 option \<Rightarrow> serial_midi \<Rightarrow> delegate_call list \<times> serial_midi" where
  "ReceiveParser rd s =
    (case rd of
      None \<Rightarrow> ([], s)
    | Some c \<Rightarrow>
      if c AND CHANNEL_VOICE_MASK \<noteq> 0 then
        if c \<ge> 0xF8 then ([realtime_handler_delegate c], s)
        else
          let s1 = s\<lparr>global_running_status_rx := c, global_3rd_byte_flag := 0\<rparr> in
          if c = SYSTEM_TUNE_REQUEST then ([], s1\<lparr>global_midi_c2 := c\<rparr>)
          else ([], s1)
      else
        if global_3rd_byte_flag s = 1 then
          let s1 = s\<lparr>global_3rd_byte_flag := 0, global_midi_c3 := c\<rparr>;
              s2 = s1\<lparr>global_running_status_rx := global_running_status_rx s1 AND 0xF0\<rparr>
          in
          if global_running_status_rx s2 = C_NOTE_ON then
            if global_midi_c3 s2 = 0
            then ([midi_note_off_delegate (global_midi_c2 s2) (global_midi_c3 s2)], s2)
            else ([midi_note_on_delegate (global_midi_c2 s2) (global_midi_c3 s2)], s2)
          else if global_running_status_rx s2 = C_NOTE_OFF
            then ([midi_note_off_delegate (global_midi_c2 s2) (global_midi_c3 s2)], s2)
          else if global_running_status_rx s2 = C_PITCH_WHEEL
            then ([midi_pitchwheel_delegate (global_midi_c2 s2) (global_midi_c3 s2)], s2)
          else if global_running_status_rx s2 = C_PROGRAM_CHANGE then ([], s2)
          else if global_running_status_rx s2 = C_POLYPHONIC_AFTERTOUCH then ([], s2)
          else if global_running_status_rx s2 = C_CHANNEL_AFTERTOUCH then ([], s2)
          else if global_running_status_rx s2 = C_CONTROL_CHANGE
            then ([midi_control_change_delegate (global_midi_c2 s2) (global_midi_c3 s2)], s2)
          else ([], s2)
        else
          if global_running_status_rx s = 0 then ([], s)
          else if global_running_status_rx s < 0xC0
            then ([], s\<lparr>global_3rd_byte_flag := 1, global_midi_c2 := c\<rparr>)
          else if global_running_status_rx s < 0xE0
            then ([], s\<lparr>global_midi_c2 := c\<rparr>)
          else if global_running_status_rx s < 0xF0
            then ([], s\<lparr>global_3rd_byte_flag := 1, global_midi_c2 := c\<rparr>)
          else if global_running_status_rx s \<ge> 0xF0 then
            if global_running_status_rx s = 0xF2
              then ([], s\<lparr>global_running_status_rx := 0,
                           global_3rd_byte_flag := 1,
                           global_midi_c2 := c\<rparr>)
            else if global_running_status_rx s \<ge> 0xF0 then
              if global_running_status_rx s = 0xF3 \<or> global_running_status_rx s = 0xF3
                then ([], s\<lparr>global_running_status_rx := 0, global_midi_c2 := c\<rparr>)
              else ([], s\<lparr>global_running_status_rx := 0\<rparr>)
            else ([], s)
          else ([], s))"

text \<open>The polling loop of the header's example (\<^verbatim>\<open>while (true) ReceiveParser();\<close>) while
  the port delivers the given bytes, one per call: the delegate calls of all the calls
  in order, and the final state.\<close>

fun poll_bytes :: "u8 list \<Rightarrow> serial_midi \<Rightarrow> delegate_call list \<times> serial_midi" where
  "poll_bytes [] s = ([], s)"
| "poll_bytes (b # bs) s =
     (let (e1, s1) = ReceiveParser (Some b) s;
          (e2, s2) = poll_bytes bs s1
      in (e1 @ e2, s2))"

section \<open>Reachable states\<close>

text \<open>Storage whose six state bytes are all zero (an object of static storage duration,
  as the global of the header's example), and storage whose byte at
  \<open>global_running_status_tx\<close> happens to hold \<open>0x90\<close> (automatic or dynamic storage).\<close>

definition storage_zero :: serial_midi where
  "storage_zero =
     \<lparr>global_running_status_tx = 0, global_running_status_rx = 0,
      global_3rd_byte_flag = 0, global_midi_c2 = 0, global_midi_c3 = 0,
      global_midi_state = 0\<rparr>"

definition storage_0x90 :: serial_midi where
  "storage_0x90 = storage_zero\<lparr>global_running_status_tx := 0x90\<rparr>"

text \<open>The states an object can be in: the constructor has run on some storage, and then
  any member functions have been called. The sending functions change at most
  \<open>global_running_status_tx\<close> (lemmas \<open>reachable_NoteON\<close> and following), so one rule
  covers them all.\<close>

inductive reachable :: "serial_midi \<Rightarrow> bool" where
  constructed: "reachable (SerialMidi storage)"
| received: "reachable s \<Longrightarrow> reachable (snd (ReceiveParser rd s))"
| sent: "reachable s \<Longrightarrow> reachable (s\<lparr>global_running_status_tx := st\<rparr>)"

text \<open>The decoder's invariant. The receive running status is 0 or a status byte below
  \<open>0xF8\<close>; and a second data byte is awaited only under a running status of a family
  with two data bytes, or under the cleared status that the \<open>0xF2\<close> branch leaves.\<close>

definition decoder_inv :: "serial_midi \<Rightarrow> bool" where
  "decoder_inv s =
     ((global_running_status_rx s = 0 \<or>
       (0x80 \<le> global_running_status_rx s \<and> global_running_status_rx s < 0xF8)) \<and>
      (global_3rd_byte_flag s = 1 \<longrightarrow>
         global_running_status_rx s < 0xC0 \<or>
         (0xE0 \<le> global_running_status_rx s \<and> global_running_status_rx s < 0xF0)))"

section \<open>Facts about bytes\<close>

lemmas macro_defs =
  CHANNEL_VOICE_MASK_def SYSTEM_TUNE_REQUEST_def C_NOTE_ON_def C_NOTE_OFF_def
  C_POLYPHONIC_AFTERTOUCH_def C_PITCH_WHEEL_def C_CONTROL_CHANGE_def C_PROGRAM_CHANGE_def
  C_CHANNEL_AFTERTOUCH_def

lemma and_submask:
  fixes x :: u8
  assumes "x AND m1 = v" and "m1 AND m2 = m2"
  shows "x AND m2 = v AND m2"
proof -
  have "x AND m2 = x AND (m1 AND m2)" using assms(2) by simp
  also have "\<dots> = (x AND m1) AND m2" by (simp add: and.assoc)
  finally show ?thesis using assms(1) by simp
qed

lemma and_all_ones: "(x::u8) AND 0xFF = x"
proof -
  have "(0xFF::u8) = - 1" by simp
  then show ?thesis by (simp only: and.right_neutral)
qed

lemma data_byte_if_less: "(c::u8) < 0x80 \<Longrightarrow> c AND 0x80 = 0"
proof -
  assume "c < 0x80"
  then have "c < 2 ^ 7" by simp
  then have e: "c AND mask 7 = c" by (rule less_mask_eq)
  have "(mask 7 :: u8) = 0x7F" by (simp add: mask_eq_exp_minus_1)
  with e have "c AND 0x7F = c" by simp
  then have "c AND 0x80 = (c AND 0x7F) AND 0x80" by simp
  also have "\<dots> = c AND (0x7F AND 0x80)" by (simp only: and.assoc)
  finally show ?thesis by simp
qed

lemma less_if_data_byte: "(c::u8) AND 0x80 = 0 \<Longrightarrow> c < 0x80"
proof -
  assume a: "c AND 0x80 = 0"
  have "c = c AND (0x7F OR 0x80)" by (simp add: and_all_ones)
  also have "\<dots> = (c AND 0x7F) OR (c AND 0x80)" by (simp only: bit.conj_disj_distrib)
  finally have "c = c AND 0x7F" using a by simp
  moreover have "c AND 0x7F \<le> 0x7F" by (rule word_and_le1)
  ultimately have "c \<le> 0x7F" by simp
  then show ?thesis by (simp add: word_le_nat_alt word_less_nat_alt)
qed

lemma data_byte_iff: "(c::u8) AND 0x80 = 0 \<longleftrightarrow> c \<le> 127"
proof
  assume "c AND 0x80 = 0"
  then have "c < 0x80" by (rule less_if_data_byte)
  then show "c \<le> 127" by (simp add: word_le_nat_alt word_less_nat_alt)
next
  assume "c \<le> 127"
  then have "c < 0x80" by (simp add: word_le_nat_alt word_less_nat_alt)
  then show "c AND 0x80 = 0" by (rule data_byte_if_less)
qed

lemma realtime_is_status: "(0xF8::u8) \<le> c \<Longrightarrow> c AND 0x80 \<noteq> 0"
  using less_if_data_byte [of c] by (auto simp add: word_le_nat_alt word_less_nat_alt)

lemma note_on_status_range:
  fixes st :: u8
  assumes "st AND 0xF0 = 0x90"
  shows "0x90 \<le> st" and "st \<le> 0x9F" and "st AND 0x80 \<noteq> 0"
proof -
  have "st AND 0xF0 \<le> st" by (rule word_and_le2)
  with assms show "0x90 \<le> st" by simp
  have z: "st AND 0x60 = 0" using and_submask [OF assms, of "0x60"] by simp
  have "st = st AND (0x9F OR 0x60)" by (simp add: and_all_ones)
  also have "\<dots> = (st AND 0x9F) OR (st AND 0x60)" by (simp only: bit.conj_disj_distrib)
  finally have "st = st AND 0x9F" using z by simp
  moreover have "st AND 0x9F \<le> 0x9F" by (rule word_and_le1)
  ultimately show "st \<le> 0x9F" by simp
  show "st AND 0x80 \<noteq> 0" using and_submask [OF assms, of "0x80"] by simp
qed

lemma channel_status:
  fixes ch :: u8
  assumes "ch \<le> 15"
  shows "(v OR ch) AND 0xF0 = v AND 0xF0"
proof -
  from assms have "ch < 2 ^ 4" by (simp add: word_le_nat_alt word_less_nat_alt)
  then have "ch AND mask 4 = ch" by (rule less_mask_eq)
  moreover have "(mask 4 :: u8) = 0x0F" by (simp add: mask_eq_exp_minus_1)
  ultimately have e: "ch AND 0x0F = ch" by simp
  have "ch AND 0xF0 = (ch AND 0x0F) AND 0xF0" using e by simp
  also have "\<dots> = ch AND (0x0F AND 0xF0)" by (simp only: and.assoc)
  finally have z: "ch AND 0xF0 = 0" by simp
  have "(v OR ch) AND 0xF0 = (v AND 0xF0) OR (ch AND 0xF0)"
    by (simp only: bit.conj_disj_distrib2)
  then show ?thesis using z by simp
qed

lemma mask_data_take_bit: "mask_data x = ucast (take_bit 7 x)"
proof -
  have m: "(ucast CHANNEL_VOICE_MASK :: cint) = 2 ^ 7"
    by (simp add: CHANNEL_VOICE_MASK_def)
  show ?thesis
    unfolding mask_data_def m
    by (rule bit_eqI, simp only: bit_simps) auto
qed

lemma mask_data_eq: "mask_data x = ucast (x AND 0x7F)"
proof -
  have "(0x7F :: cint) = mask 7" by (simp add: mask_eq_exp_minus_1)
  then show ?thesis by (simp add: mask_data_take_bit take_bit_eq_mask)
qed

lemma mask_data_top: "mask_data x AND 0x80 = 0"
  unfolding mask_data_def CHANNEL_VOICE_MASK_def
  by (rule bit_eqI) (auto simp add: bit_simps)

lemma uint_mask_data: "uint (mask_data x) = uint x mod 128"
proof -
  have "uint (mask_data x) = take_bit 7 (uint x)"
    by (simp add: mask_data_take_bit unsigned_ucast_eq unsigned_take_bit_eq)
  also have "\<dots> = uint x mod 128" by (simp add: take_bit_eq_mod)
  finally show ?thesis .
qed

lemma uint_promote: "uint (ucast (p::u16) :: cint) = uint p"
  by (rule uint_up_ucast) (simp add: is_up)

lemma uint_promote_shift: "uint (drop_bit 7 (ucast (p::u16) :: cint)) = uint p div 128"
proof -
  have "uint (drop_bit 7 (ucast p :: cint)) =
        drop_bit 7 (take_bit LENGTH(32) (uint (ucast p :: cint)))"
    by (rule unsigned_drop_bit_eq)
  also have "\<dots> = drop_bit 7 (uint (ucast p :: cint))"
    by (simp only: bintr_uint [OF order_refl])
  also have "\<dots> = uint p div 128"
    by (simp only: uint_promote drop_bit_eq_div) simp
  finally show ?thesis .
qed

lemma recentre:
  assumes "- 8192 \<le> sint (val::i16)" and "sint val \<le> 8191"
  shows "uint (word_of_int (sint val + 0x2000) :: u16) = sint val + 8192"
proof -
  have "uint (word_of_int (sint val + 0x2000) :: u16) =
        (sint val + 0x2000) mod 2 ^ LENGTH(16)"
    by (rule uint_word_of_int)
  also have "\<dots> = sint val + 0x2000" using assms by simp
  finally show ?thesis by simp
qed

lemma hi_nibble: "(x::u8) AND 0xF0 = push_bit 4 (drop_bit 4 x)"
proof -
  have m: "(0xF0::u8) = NOT (mask 4)" by (simp add: mask_eq_exp_minus_1)
  show ?thesis unfolding m by (rule bit_eqI) (auto simp add: bit_simps)
qed

lemma unat_hi_nibble: "unat ((x::u8) AND 0xF0) = 16 * (unat x div 16)"
proof -
  have b: "unat x < 256" using unsigned_less [of x, where 'a = nat] by simp
  have "unat (x AND 0xF0) = take_bit LENGTH(8) (push_bit 4 (drop_bit 4 (unat x)))"
    by (simp only: hi_nibble unsigned_push_bit_eq unat_drop_bit_eq)
  also have "\<dots> = (16 * (unat x div 16)) mod 256"
    by (simp add: take_bit_eq_mod push_bit_eq_mult drop_bit_eq_div mult.commute)
  also have "\<dots> = 16 * (unat x div 16)" using b by simp
  finally show ?thesis .
qed

lemma hi_nibble_low: "((x::u8) AND 0xF0) AND 0x0F = 0"
proof -
  have "(x AND 0xF0) AND 0x0F = x AND (0xF0 AND 0x0F)" by (simp only: and.assoc)
  then show ?thesis by simp
qed

lemma hi_nibble_order:
  fixes x :: u8
  shows "x < 0xC0 \<Longrightarrow> x AND 0xF0 < 0xC0"
    and "0xE0 \<le> x \<Longrightarrow> 0xE0 \<le> x AND 0xF0"
    and "x < 0xF0 \<Longrightarrow> x AND 0xF0 < 0xF0"
    and "0x80 \<le> x \<Longrightarrow> 0x80 \<le> x AND 0xF0"
    and "x < 0xF8 \<Longrightarrow> x AND 0xF0 < 0xF8"
  by (simp_all add: word_le_nat_alt word_less_nat_alt unat_hi_nibble)

lemma status_byte_ge: "(c::u8) AND 0x80 \<noteq> 0 \<Longrightarrow> 0x80 \<le> c"
  using data_byte_if_less [of c] by (auto simp add: not_less [symmetric])

lemma ge_status_byte: "(0x80::u8) \<le> c \<Longrightarrow> c AND 0x80 \<noteq> 0"
  using less_if_data_byte [of c] by (auto simp add: not_less [symmetric])

section \<open>Encoder: what each sending function writes\<close>

lemma NoteON_writes:
  "NoteON ch k v s =
     (if global_running_status_tx s = (C_NOTE_ON OR ch) then ([k, v], s)
      else ([C_NOTE_ON OR ch, k, v], s\<lparr>global_running_status_tx := C_NOTE_ON OR ch\<rparr>))"
  by (simp add: NoteON_def serial_port_write_def Let_def)

lemma NoteOFF_writes:
  "NoteOFF ch k v s =
     (if global_running_status_tx s = (C_NOTE_OFF OR ch) then ([k, v], s)
      else ([C_NOTE_OFF OR ch, k, v], s\<lparr>global_running_status_tx := C_NOTE_OFF OR ch\<rparr>))"
  by (simp add: NoteOFF_def serial_port_write_def Let_def)

lemma ControlChange_writes:
  "ControlChange ch k v s =
     (if global_running_status_tx s = (C_CONTROL_CHANGE OR ch) then ([k, v], s)
      else ([C_CONTROL_CHANGE OR ch, k, v],
            s\<lparr>global_running_status_tx := C_CONTROL_CHANGE OR ch\<rparr>))"
  by (simp add: ControlChange_def serial_port_write_def Let_def)

lemma ChannelAfterTouch_writes:
  "ChannelAfterTouch ch v s =
     (if global_running_status_tx s = (C_CHANNEL_AFTERTOUCH OR ch) then ([v], s)
      else ([C_CHANNEL_AFTERTOUCH OR ch, v],
            s\<lparr>global_running_status_tx := C_CHANNEL_AFTERTOUCH OR ch\<rparr>))"
  by (simp add: ChannelAfterTouch_def serial_port_write_def Let_def)

lemma PitchWheel_writes:
  "PitchWheel ch val s =
     (if global_running_status_tx s = (C_PITCH_WHEEL OR ch)
      then ([mask_data (ucast val), mask_data (drop_bit 7 (ucast val))], s)
      else ([C_PITCH_WHEEL OR ch, mask_data (ucast val), mask_data (drop_bit 7 (ucast val))],
            s\<lparr>global_running_status_tx := C_PITCH_WHEEL OR ch\<rparr>))"
  by (simp add: PitchWheel_def serial_port_write_def Let_def)

lemma ModWheel_u16_writes:
  "ModWheel_u16 ch val s =
     (if global_running_status_tx s = (C_CONTROL_CHANGE OR ch)
      then ([CTL_LSB_MODWHEEL, mask_data (ucast val),
             CTL_MSB_MODWHEEL, mask_data (drop_bit 7 (ucast val))], s)
      else ([C_CONTROL_CHANGE OR ch, CTL_LSB_MODWHEEL, mask_data (ucast val),
             CTL_MSB_MODWHEEL, mask_data (drop_bit 7 (ucast val))],
            s\<lparr>global_running_status_tx := C_CONTROL_CHANGE OR ch\<rparr>))"
  by (simp add: ModWheel_u16_def ControlChange_writes)

lemma ModWheel_u8_writes:
  "ModWheel_u8 ch val s =
     (if global_running_status_tx s = (C_CONTROL_CHANGE OR ch)
      then ([CTL_MSB_MODWHEEL, mask_data (ucast val)], s)
      else ([C_CONTROL_CHANGE OR ch, CTL_MSB_MODWHEEL, mask_data (ucast val)],
            s\<lparr>global_running_status_tx := C_CONTROL_CHANGE OR ch\<rparr>))"
  by (simp add: ModWheel_u8_def ControlChange_writes)

lemma reachable_NoteON: "reachable s \<Longrightarrow> reachable (snd (NoteON ch k v s))"
  by (simp add: NoteON_writes reachable.sent)

lemma reachable_NoteOFF: "reachable s \<Longrightarrow> reachable (snd (NoteOFF ch k v s))"
  by (simp add: NoteOFF_writes reachable.sent)

lemma reachable_ControlChange: "reachable s \<Longrightarrow> reachable (snd (ControlChange ch k v s))"
  by (simp add: ControlChange_writes reachable.sent)

lemma reachable_ChannelAfterTouch:
  "reachable s \<Longrightarrow> reachable (snd (ChannelAfterTouch ch v s))"
  by (simp add: ChannelAfterTouch_writes reachable.sent)

lemma reachable_PitchWheel: "reachable s \<Longrightarrow> reachable (snd (PitchWheel ch val s))"
  by (simp add: PitchWheel_writes reachable.sent)

lemma reachable_PitchWheel_i16:
  "reachable s \<Longrightarrow> reachable (snd (PitchWheel_i16 ch val s))"
  by (simp add: PitchWheel_i16_def Let_def reachable_PitchWheel)

lemma reachable_ModWheel_u16: "reachable s \<Longrightarrow> reachable (snd (ModWheel_u16 ch val s))"
  by (simp add: ModWheel_u16_writes reachable.sent)

lemma reachable_ModWheel_u8: "reachable s \<Longrightarrow> reachable (snd (ModWheel_u8 ch val s))"
  by (simp add: ModWheel_u8_writes reachable.sent)

lemma reachable_ModWheel_int: "reachable s \<Longrightarrow> reachable (snd (ModWheel_int ch val s))"
  by (simp add: ModWheel_int_def reachable_ModWheel_u8)

lemma reachable_realtime_sends:
  "reachable s \<Longrightarrow>
     reachable (snd (TimingClock s)) \<and> reachable (snd (Start s)) \<and>
     reachable (snd (Continue s)) \<and> reachable (snd (Stop s)) \<and>
     reachable (snd (Active_Sensing s)) \<and> reachable (snd (Reset s))"
  by (simp add: TimingClock_def Start_def Continue_def Stop_def Active_Sensing_def Reset_def)

section \<open>Decoder: one lemma per branch\<close>

lemma parse_nothing: "ReceiveParser None s = ([], s)"
  by (simp add: ReceiveParser_def)

lemma parse_realtime:
  "0xF8 \<le> c \<Longrightarrow> ReceiveParser (Some c) s = ([realtime_handler_delegate c], s)"
  using realtime_is_status [of c] by (simp add: ReceiveParser_def macro_defs)

lemma parse_status:
  assumes "c AND 0x80 \<noteq> 0" and "c < 0xF8" and "c \<noteq> 0xF6"
  shows "ReceiveParser (Some c) s =
           ([], s\<lparr>global_running_status_rx := c, global_3rd_byte_flag := 0\<rparr>)"
  using assms by (simp add: ReceiveParser_def macro_defs Let_def not_le [symmetric])

lemma parse_first_of_two:
  assumes "c AND 0x80 = 0" and "global_3rd_byte_flag s \<noteq> 1"
    and "global_running_status_rx s \<noteq> 0"
    and "global_running_status_rx s < 0xC0 \<or>
         (0xE0 \<le> global_running_status_rx s \<and> global_running_status_rx s < 0xF0)"
  shows "ReceiveParser (Some c) s =
           ([], s\<lparr>global_3rd_byte_flag := 1, global_midi_c2 := c\<rparr>)"
  using assms by (auto simp add: ReceiveParser_def macro_defs)

lemma parse_second_state:
  assumes "c AND 0x80 = 0" and "global_3rd_byte_flag s = 1"
  shows "snd (ReceiveParser (Some c) s) =
           s\<lparr>global_3rd_byte_flag := 0, global_midi_c3 := c,
             global_running_status_rx := global_running_status_rx s AND 0xF0\<rparr>"
  using assms by (simp add: ReceiveParser_def macro_defs Let_def)

lemma parse_second_note_on:
  assumes "c AND 0x80 = 0" and "global_3rd_byte_flag s = 1"
    and "global_running_status_rx s AND 0xF0 = 0x90"
  shows "fst (ReceiveParser (Some c) s) =
           (if c = 0 then [midi_note_off_delegate (global_midi_c2 s) 0]
            else [midi_note_on_delegate (global_midi_c2 s) c])"
  using assms by (simp add: ReceiveParser_def macro_defs Let_def)

lemma parse_discard:
  assumes "c AND 0x80 = 0" and "global_3rd_byte_flag s \<noteq> 1"
    and "global_running_status_rx s = 0"
  shows "ReceiveParser (Some c) s = ([], s)"
  using assms by (simp add: ReceiveParser_def macro_defs)

lemma poll_bytes_single: "poll_bytes [b] s = ReceiveParser (Some b) s"
  by (simp add: split_def)

lemma poll_bytes_append:
  "poll_bytes (xs @ ys) s =
     (fst (poll_bytes xs s) @ fst (poll_bytes ys (snd (poll_bytes xs s))),
      snd (poll_bytes ys (snd (poll_bytes xs s))))"
  by (induction xs arbitrary: s) (simp_all add: split_def Let_def)

lemma poll_note_on_first:
  assumes st: "st AND 0xF0 = 0x90" and k: "k AND 0x80 = 0"
  shows "poll_bytes [st, k] d =
           ([], d\<lparr>global_running_status_rx := st, global_3rd_byte_flag := 1,
                  global_midi_c2 := k\<rparr>)"
proof -
  note r = note_on_status_range [OF st]
  have lt: "st < 0xF8" "st \<noteq> 0xF6" "st \<noteq> 0" "st < 0xC0"
    using r(1,2) by (auto simp add: word_le_nat_alt word_less_nat_alt)
  let ?d1 = "d\<lparr>global_running_status_rx := st, global_3rd_byte_flag := 0\<rparr>"
  have s1: "ReceiveParser (Some st) d = ([], ?d1)"
    using r(3) lt(1,2) by (rule parse_status)
  have s2: "ReceiveParser (Some k) ?d1 =
              ([], ?d1\<lparr>global_3rd_byte_flag := 1, global_midi_c2 := k\<rparr>)"
    using k lt by (intro parse_first_of_two) simp_all
  show ?thesis by (simp add: s1 s2)
qed

lemma poll_note_on:
  assumes st: "st AND 0xF0 = 0x90" and k: "k AND 0x80 = 0" and v: "v AND 0x80 = 0"
  shows "fst (poll_bytes [st, k, v] d) =
           (if v = 0 then [midi_note_off_delegate k 0] else [midi_note_on_delegate k v])"
proof -
  let ?d2 = "d\<lparr>global_running_status_rx := st, global_3rd_byte_flag := 1,
                global_midi_c2 := k\<rparr>"
  have "fst (ReceiveParser (Some v) ?d2) =
          (if v = 0 then [midi_note_off_delegate k 0] else [midi_note_on_delegate k v])"
    using parse_second_note_on [OF v, of ?d2] st by simp
  then show ?thesis
    using poll_bytes_append [of "[st, k]" "[v]" d]
    by (simp only: append.simps poll_note_on_first [OF st k] poll_bytes_single
          fst_conv snd_conv)
qed

section \<open>The decoder's invariant\<close>

lemma decoder_inv_SerialMidi: "decoder_inv (SerialMidi storage)"
  by (simp add: decoder_inv_def SerialMidi_def)

lemma decoder_inv_ReceiveParser:
  assumes "decoder_inv s"
  shows "decoder_inv (snd (ReceiveParser rd s))"
proof (cases rd)
  case None
  with assms show ?thesis by (simp add: parse_nothing)
next
  case (Some c)
  show ?thesis
  proof (cases "c AND 0x80 = 0")
    case False
    show ?thesis
    proof (cases "0xF8 \<le> c")
      case True
      with assms Some show ?thesis by (simp add: parse_realtime)
    next
      case False
      then have "c < 0xF8" by simp
      moreover have "0x80 \<le> c" using \<open>c AND 0x80 \<noteq> 0\<close> by (rule status_byte_ge)
      ultimately show ?thesis
        using Some \<open>c AND 0x80 \<noteq> 0\<close> \<open>\<not> 0xF8 \<le> c\<close>
        by (simp add: decoder_inv_def ReceiveParser_def Let_def macro_defs)
    qed
  next
    case True
    show ?thesis
    proof (cases "global_3rd_byte_flag s = 1")
      case True
      have "decoder_inv
              (s\<lparr>global_3rd_byte_flag := 0, global_midi_c3 := c,
                 global_running_status_rx := global_running_status_rx s AND 0xF0\<rparr>)"
        using assms hi_nibble_order(4,5) [of "global_running_status_rx s"]
        by (auto simp add: decoder_inv_def)
      then show ?thesis
        using Some parse_second_state [OF \<open>c AND 0x80 = 0\<close> True] by simp
    next
      case False
      then show ?thesis
        using assms Some \<open>c AND 0x80 = 0\<close>
        by (auto simp add: decoder_inv_def ReceiveParser_def macro_defs)
    qed
  qed
qed

lemma reachable_decoder_inv: "reachable s \<Longrightarrow> decoder_inv s"
proof (induction rule: reachable.induct)
  case (constructed storage)
  show ?case by (rule decoder_inv_SerialMidi)
next
  case (received s rd)
  then show ?case by (simp add: decoder_inv_ReceiveParser)
next
  case (sent s st)
  then show ?case by (simp add: decoder_inv_def)
qed

section \<open>Claims about the encoder\<close>

text \<open>C1: every channel-voice send computes the status byte (command family OR channel);
  when it equals the transmit running status only the data bytes are written and the
  state is unchanged, otherwise the status byte followed by the data bytes is written
  and the transmit running status becomes that status byte. \<open>ModWheel\<close> with a 14-bit
  value is two control changes, so its second message is always elided; the signed
  \<open>PitchWheel\<close> and the \<open>int\<close> overload of \<open>ModWheel\<close> delegate. Concretely,
  \<open>NoteON(0, 60, 100)\<close> under a different running status writes \<open>[0x90, 0x3C, 0x64]\<close>,
  and \<open>NoteON(0, 62, 90)\<close> right after it writes \<open>[0x3E, 0x5A]\<close>.\<close>

theorem send_running_status:
  "NoteON ch k v s =
     (if global_running_status_tx s = (C_NOTE_ON OR ch) then ([k, v], s)
      else ([C_NOTE_ON OR ch, k, v], s\<lparr>global_running_status_tx := C_NOTE_ON OR ch\<rparr>)) \<and>
   NoteOFF ch k v s =
     (if global_running_status_tx s = (C_NOTE_OFF OR ch) then ([k, v], s)
      else ([C_NOTE_OFF OR ch, k, v], s\<lparr>global_running_status_tx := C_NOTE_OFF OR ch\<rparr>)) \<and>
   ControlChange ch k v s =
     (if global_running_status_tx s = (C_CONTROL_CHANGE OR ch) then ([k, v], s)
      else ([C_CONTROL_CHANGE OR ch, k, v],
            s\<lparr>global_running_status_tx := C_CONTROL_CHANGE OR ch\<rparr>)) \<and>
   ChannelAfterTouch ch v s =
     (if global_running_status_tx s = (C_CHANNEL_AFTERTOUCH OR ch) then ([v], s)
      else ([C_CHANNEL_AFTERTOUCH OR ch, v],
            s\<lparr>global_running_status_tx := C_CHANNEL_AFTERTOUCH OR ch\<rparr>)) \<and>
   (\<exists>lsb msb.
      PitchWheel ch val s =
        (if global_running_status_tx s = (C_PITCH_WHEEL OR ch) then ([lsb, msb], s)
         else ([C_PITCH_WHEEL OR ch, lsb, msb],
               s\<lparr>global_running_status_tx := C_PITCH_WHEEL OR ch\<rparr>)) \<and>
      ModWheel_u16 ch val s =
        (if global_running_status_tx s = (C_CONTROL_CHANGE OR ch)
         then ([CTL_LSB_MODWHEEL, lsb, CTL_MSB_MODWHEEL, msb], s)
         else ([C_CONTROL_CHANGE OR ch, CTL_LSB_MODWHEEL, lsb, CTL_MSB_MODWHEEL, msb],
               s\<lparr>global_running_status_tx := C_CONTROL_CHANGE OR ch\<rparr>))) \<and>
   (\<exists>m.
      ModWheel_u8 ch v s =
        (if global_running_status_tx s = (C_CONTROL_CHANGE OR ch)
         then ([CTL_MSB_MODWHEEL, m], s)
         else ([C_CONTROL_CHANGE OR ch, CTL_MSB_MODWHEEL, m],
               s\<lparr>global_running_status_tx := C_CONTROL_CHANGE OR ch\<rparr>))) \<and>
   PitchWheel_i16 ch sval s = PitchWheel ch (word_of_int (sint sval + 0x2000)) s \<and>
   ModWheel_int ch ival s = ModWheel_u8 ch (ucast ival) s \<and>
   (global_running_status_tx s \<noteq> 0x90 \<longrightarrow>
      fst (NoteON 0 60 100 s) = [0x90, 0x3C, 0x64]) \<and>
   fst (NoteON 0 62 90 (snd (NoteON 0 60 100 s))) = [0x3E, 0x5A]"
proof -
  have pw: "PitchWheel_i16 ch sval s = PitchWheel ch (word_of_int (sint sval + 0x2000)) s"
      "ModWheel_int ch ival s = ModWheel_u8 ch (ucast ival) s"
    by (simp_all add: PitchWheel_i16_def ModWheel_int_def Let_def)
  have first: "global_running_status_tx s \<noteq> 0x90 \<longrightarrow>
      fst (NoteON 0 60 100 s) = [0x90, 0x3C, 0x64]"
    by (simp add: NoteON_writes C_NOTE_ON_def)
  have second: "fst (NoteON 0 62 90 (snd (NoteON 0 60 100 s))) = [0x3E, 0x5A]"
    by (simp add: NoteON_writes C_NOTE_ON_def)
  show ?thesis
    using pw first second
    by (simp only: NoteON_writes NoteOFF_writes ControlChange_writes
          ChannelAfterTouch_writes PitchWheel_writes ModWheel_u16_writes ModWheel_u8_writes)
       blast
qed

theorem send_running_status_witness:
  "global_running_status_tx (SerialMidi storage_zero) \<noteq> 0x90 \<and>
   fst (NoteON 0 60 100 (SerialMidi storage_zero)) = [0x90, 0x3C, 0x64] \<and>
   fst (NoteON 0 62 90 (snd (NoteON 0 60 100 (SerialMidi storage_zero)))) = [0x3E, 0x5A]"
  using send_running_status
          [where s = "SerialMidi storage_zero" and ch = 0 and k = 60 and v = 100
             and val = 0 and sval = 0 and ival = 0]
  by (simp add: SerialMidi_def storage_zero_def NoteON_writes C_NOTE_ON_def)

text \<open>C7: the constructor assigns the receive running status, the pending-byte flag,
  both buffered bytes and the state tag, but not \<open>global_running_status_tx\<close>: after
  construction that member holds what the object's storage held. On storage holding
  \<open>0x90\<close> there, the first \<open>NoteON(0, 60, 100)\<close> of the object's life is sent without
  its status byte.\<close>

theorem SerialMidi_leaves_tx:
  "global_running_status_rx (SerialMidi storage) = 0 \<and>
   global_3rd_byte_flag (SerialMidi storage) = 0 \<and>
   global_midi_c2 (SerialMidi storage) = 0 \<and>
   global_midi_c3 (SerialMidi storage) = 0 \<and>
   global_midi_state (SerialMidi storage) = RESET \<and>
   global_running_status_tx (SerialMidi storage) = global_running_status_tx storage \<and>
   global_running_status_tx (SerialMidi storage_0x90) = 0x90 \<and>
   NoteON 0 60 100 (SerialMidi storage_0x90) = ([0x3C, 0x64], SerialMidi storage_0x90)"
  by (simp add: SerialMidi_def storage_0x90_def storage_zero_def NoteON_writes C_NOTE_ON_def)

section \<open>Claims about the decoder\<close>

text \<open>C8: a call of the parser while the port has no byte makes no delegate call and
  leaves every member of the state as it was.\<close>

theorem no_byte_no_effect: "ReceiveParser None s = ([], s)"
  by (rule parse_nothing)

text \<open>C3: when the second data byte of a message arrives under a running status of the
  note-on family, the parser calls the note-off delegate with the first byte and 0 if
  the second byte is 0, and the note-on delegate with both bytes otherwise. Concretely,
  the bytes \<open>[0x90, 0x3C, 0x00]\<close> make one call, note-off(60, 0), from any state.\<close>

theorem note_on_velocity_zero:
  "(c AND CHANNEL_VOICE_MASK = 0 \<and> global_3rd_byte_flag s = 1 \<and>
    global_running_status_rx s AND 0xF0 = C_NOTE_ON \<longrightarrow>
      fst (ReceiveParser (Some c) s) =
        (if c = 0 then [midi_note_off_delegate (global_midi_c2 s) 0]
         else [midi_note_on_delegate (global_midi_c2 s) c])) \<and>
   fst (poll_bytes [0x90, 0x3C, 0x00] d) = [midi_note_off_delegate 60 0]"
proof -
  have "fst (poll_bytes [0x90, 0x3C, 0x00] d) = [midi_note_off_delegate 60 0]"
    using poll_note_on [of "0x90" "0x3C" 0 d] by simp
  then show ?thesis
    by (simp add: parse_second_note_on macro_defs)
qed

theorem note_on_velocity_zero_witness:
  "fst (ReceiveParser (Some 0)
         (snd (poll_bytes [0x90, 0x3C] (SerialMidi storage_zero)))) =
     [midi_note_off_delegate 60 0] \<and>
   fst (ReceiveParser (Some 100)
         (snd (poll_bytes [0x90, 0x3C] (SerialMidi storage_zero)))) =
     [midi_note_on_delegate 60 100]"
proof -
  let ?s = "snd (poll_bytes [0x90, 0x3C] (SerialMidi storage_zero))"
  have s: "?s = (SerialMidi storage_zero)
                  \<lparr>global_running_status_rx := 0x90, global_3rd_byte_flag := 1,
                   global_midi_c2 := 0x3C\<rparr>"
    using poll_note_on_first [of "0x90" "0x3C" "SerialMidi storage_zero"] by simp
  show ?thesis
    using note_on_velocity_zero [where c = 0 and s = ?s and d = ?s]
      note_on_velocity_zero [where c = 100 and s = ?s and d = ?s]
    unfolding s by (simp add: macro_defs)
qed

text \<open>C5: a byte of \<open>0xF8\<close> or more makes one call of the realtime delegate with that
  byte and changes nothing of the state. So a note-on status byte, a data byte, a
  realtime byte and a second data byte make no call on the first two bytes, the
  realtime call on the third, and the note-on call (note-off for velocity 0) on the
  fourth.\<close>

theorem realtime_interleave:
  "(0xF8 \<le> rt \<longrightarrow> ReceiveParser (Some rt) s = ([realtime_handler_delegate rt], s)) \<and>
   (0xF8 \<le> rt \<and> st AND 0xF0 = C_NOTE_ON \<and>
    k AND CHANNEL_VOICE_MASK = 0 \<and> v AND CHANNEL_VOICE_MASK = 0 \<longrightarrow>
      fst (poll_bytes [st, k] d) = [] \<and>
      ReceiveParser (Some rt) (snd (poll_bytes [st, k] d)) =
        ([realtime_handler_delegate rt], snd (poll_bytes [st, k] d)) \<and>
      fst (ReceiveParser (Some v) (snd (poll_bytes [st, k, rt] d))) =
        (if v = 0 then [midi_note_off_delegate k 0] else [midi_note_on_delegate k v]) \<and>
      fst (poll_bytes [st, k, rt, v] d) =
        realtime_handler_delegate rt #
        (if v = 0 then [midi_note_off_delegate k 0] else [midi_note_on_delegate k v]))"
proof -
  have a: "0xF8 \<le> rt \<longrightarrow> ReceiveParser (Some rt) s = ([realtime_handler_delegate rt], s)"
    by (simp add: parse_realtime)
  have b: "fst (poll_bytes [st, k] d) = [] \<and>
      ReceiveParser (Some rt) (snd (poll_bytes [st, k] d)) =
        ([realtime_handler_delegate rt], snd (poll_bytes [st, k] d)) \<and>
      fst (ReceiveParser (Some v) (snd (poll_bytes [st, k, rt] d))) =
        (if v = 0 then [midi_note_off_delegate k 0] else [midi_note_on_delegate k v]) \<and>
      fst (poll_bytes [st, k, rt, v] d) =
        realtime_handler_delegate rt #
        (if v = 0 then [midi_note_off_delegate k 0] else [midi_note_on_delegate k v])"
    if rt: "0xF8 \<le> rt" and st: "st AND 0xF0 = 0x90"
      and k: "k AND 0x80 = 0" and v: "v AND 0x80 = 0"
  proof -
    let ?d2 = "d\<lparr>global_running_status_rx := st, global_3rd_byte_flag := 1,
                  global_midi_c2 := k\<rparr>"
    have p2: "poll_bytes [st, k] d = ([], ?d2)"
      using st k by (rule poll_note_on_first)
    have p3: "ReceiveParser (Some rt) ?d2 = ([realtime_handler_delegate rt], ?d2)"
      using rt by (rule parse_realtime)
    have p4: "fst (ReceiveParser (Some v) ?d2) =
        (if v = 0 then [midi_note_off_delegate k 0] else [midi_note_on_delegate k v])"
      using parse_second_note_on [OF v, of ?d2] st by simp
    have q2: "poll_bytes [st, k, rt] d = ([realtime_handler_delegate rt], ?d2)"
      using poll_bytes_append [of "[st, k]" "[rt]" d]
      by (simp only: append.simps p2 p3 poll_bytes_single fst_conv snd_conv)
    have q3: "fst (poll_bytes [st, k, rt, v] d) =
                realtime_handler_delegate rt # fst (ReceiveParser (Some v) ?d2)"
      using poll_bytes_append [of "[st, k, rt]" "[v]" d]
      by (simp only: append.simps q2 poll_bytes_single fst_conv snd_conv)
    show ?thesis
      by (simp only: p2 p3 p4 q2 q3 fst_conv snd_conv)
  qed
  show ?thesis using a b by (simp add: macro_defs)
qed

theorem realtime_interleave_witness:
  "fst (poll_bytes [0x90, 0x3C] (SerialMidi storage_zero)) = [] \<and>
   fst (ReceiveParser (Some 0xF8) (snd (poll_bytes [0x90, 0x3C] (SerialMidi storage_zero)))) =
     [realtime_handler_delegate 0xF8] \<and>
   fst (poll_bytes [0x90, 0x3C, 0xF8, 0x64] (SerialMidi storage_zero)) =
     [realtime_handler_delegate 0xF8, midi_note_on_delegate 0x3C 0x64]"
  using realtime_interleave
          [where rt = "0xF8" and st = "0x90" and k = "0x3C" and v = "0x64"
             and s = "SerialMidi storage_zero" and d = "SerialMidi storage_zero"]
  by (simp add: macro_defs)

text \<open>C9: under the running status \<open>0xF2\<close> with the pending-byte flag clear, a data byte
  clears the running status to 0, sets the flag and is stored, with no delegate call.
  The next data byte is then taken as a second byte: the flag is cleared, the byte is
  stored in the second buffer, and no delegate is called, the running status being 0.\<close>

theorem song_position_quirk:
  assumes "global_running_status_rx s = 0xF2" and "global_3rd_byte_flag s = 0"
    and "c AND CHANNEL_VOICE_MASK = 0" and "d AND CHANNEL_VOICE_MASK = 0"
  shows "ReceiveParser (Some c) s =
           ([], s\<lparr>global_running_status_rx := 0, global_3rd_byte_flag := 1,
                  global_midi_c2 := c\<rparr>) \<and>
         poll_bytes [c, d] s =
           ([], s\<lparr>global_running_status_rx := 0, global_3rd_byte_flag := 0,
                  global_midi_c2 := c, global_midi_c3 := d\<rparr>)"
  using assms by (simp add: ReceiveParser_def macro_defs Let_def)

theorem song_position_quirk_witness:
  "ReceiveParser (Some 1) (snd (poll_bytes [0xF2] (SerialMidi storage_zero))) =
     ([], (SerialMidi storage_zero)\<lparr>global_3rd_byte_flag := 1, global_midi_c2 := 1\<rparr>) \<and>
   poll_bytes [1, 2] (snd (poll_bytes [0xF2] (SerialMidi storage_zero))) =
     ([], (SerialMidi storage_zero)\<lparr>global_midi_c2 := 1, global_midi_c3 := 2\<rparr>)"
proof -
  have s: "snd (poll_bytes [0xF2] (SerialMidi storage_zero)) =
             (SerialMidi storage_zero)\<lparr>global_running_status_rx := 0xF2\<rparr>"
    by (simp add: ReceiveParser_def macro_defs Let_def SerialMidi_def storage_zero_def)
  show ?thesis
    using song_position_quirk
            [where s = "(SerialMidi storage_zero)\<lparr>global_running_status_rx := 0xF2\<rparr>"
               and c = 1 and d = 2]
    unfolding s
    by (simp add: ReceiveParser_def Let_def macro_defs SerialMidi_def storage_zero_def)
qed

section \<open>Claims about encoding and decoding together\<close>

text \<open>C2, as the code has it: for a channel in 0..15 and a key and velocity in 0..127,
  when \<open>NoteON\<close> is not elided (the transmit running status differs from
  \<open>0x90 | channel\<close>), the bytes it writes, fed one per call to a decoder with no
  receive running status, make exactly one delegate call: note-on(key, velocity) when
  the velocity is not 0, note-off(key, 0) when it is.\<close>

theorem note_on_roundtrip:
  assumes "channel \<le> 15" and "key \<le> 127" and "velocity \<le> 127"
    and "global_running_status_tx s \<noteq> (C_NOTE_ON OR channel)"
    and "global_running_status_rx d = 0"
  shows "fst (poll_bytes (fst (NoteON channel key velocity s)) d) =
           (if velocity = 0 then [midi_note_off_delegate key 0]
            else [midi_note_on_delegate key velocity])"
proof -
  have w: "fst (NoteON channel key velocity s) = [0x90 OR channel, key, velocity]"
    using assms(4) by (simp add: NoteON_writes C_NOTE_ON_def)
  have st: "(0x90 OR channel) AND 0xF0 = 0x90"
    using channel_status [OF assms(1), of "0x90"] by simp
  have k: "key AND 0x80 = 0" using assms(2) by (simp add: data_byte_iff)
  have v: "velocity AND 0x80 = 0" using assms(3) by (simp add: data_byte_iff)
  show ?thesis unfolding w using st k v by (rule poll_note_on)
qed

theorem note_on_roundtrip_witness:
  "fst (poll_bytes (fst (NoteON 0 60 100 (SerialMidi storage_zero)))
         (SerialMidi storage_zero)) = [midi_note_on_delegate 60 100] \<and>
   fst (poll_bytes (fst (NoteON 9 60 0 (SerialMidi storage_zero)))
         (SerialMidi storage_zero)) = [midi_note_off_delegate 60 0]"
  using note_on_roundtrip
          [where channel = 0 and key = 60 and velocity = 100
             and s = "SerialMidi storage_zero" and d = "SerialMidi storage_zero"]
        note_on_roundtrip
          [where channel = 9 and key = 60 and velocity = 0
             and s = "SerialMidi storage_zero" and d = "SerialMidi storage_zero"]
  by (simp add: SerialMidi_def storage_zero_def C_NOTE_ON_def)

text \<open>C2 as stated fails when the send is elided: after \<open>NoteON(0, 60, 100)\<close> the same
  object's \<open>NoteON(0, 62, 90)\<close> writes two data bytes only, and a decoder with no
  receive running status discards both.\<close>

theorem note_on_roundtrip_elided:
  "global_running_status_rx (snd (NoteON 0 60 100 (SerialMidi storage_zero))) = 0 \<and>
   fst (NoteON 0 62 90 (snd (NoteON 0 60 100 (SerialMidi storage_zero)))) = [0x3E, 0x5A] \<and>
   fst (poll_bytes (fst (NoteON 0 62 90 (snd (NoteON 0 60 100 (SerialMidi storage_zero)))))
         (snd (NoteON 0 60 100 (SerialMidi storage_zero)))) = []"
  by (simp add: NoteON_writes C_NOTE_ON_def SerialMidi_def storage_zero_def
        ReceiveParser_def CHANNEL_VOICE_MASK_def)

text \<open>C4, as the code has it: \<open>PitchWheel\<close> and \<open>ModWheel\<close> cut each data value to its
  low 7 bits, so their data bytes have the top bit clear (the signed \<open>PitchWheel\<close> and
  the \<open>int\<close> overload of \<open>ModWheel\<close> go through the same code); \<open>NoteON\<close>,
  \<open>NoteOFF\<close>, \<open>ControlChange\<close> and \<open>ChannelAfterTouch\<close> write the bytes they are given,
  unchanged. No sending function has an error result.\<close>

theorem data_masking:
  "(\<exists>lsb msb.
      lsb AND CHANNEL_VOICE_MASK = 0 \<and> msb AND CHANNEL_VOICE_MASK = 0 \<and>
      uint lsb = uint val mod 128 \<and> uint msb = uint val div 128 mod 128 \<and>
      fst (PitchWheel ch val s) =
        (if global_running_status_tx s = (C_PITCH_WHEEL OR ch) then [lsb, msb]
         else [C_PITCH_WHEEL OR ch, lsb, msb]) \<and>
      fst (ModWheel_u16 ch val s) =
        (if global_running_status_tx s = (C_CONTROL_CHANGE OR ch)
         then [CTL_LSB_MODWHEEL, lsb, CTL_MSB_MODWHEEL, msb]
         else [C_CONTROL_CHANGE OR ch, CTL_LSB_MODWHEEL, lsb, CTL_MSB_MODWHEEL, msb])) \<and>
   (\<exists>m.
      m AND CHANNEL_VOICE_MASK = 0 \<and> uint m = uint v mod 128 \<and>
      fst (ModWheel_u8 ch v s) =
        (if global_running_status_tx s = (C_CONTROL_CHANGE OR ch) then [CTL_MSB_MODWHEEL, m]
         else [C_CONTROL_CHANGE OR ch, CTL_MSB_MODWHEEL, m])) \<and>
   PitchWheel_i16 ch sval s = PitchWheel ch (word_of_int (sint sval + 0x2000)) s \<and>
   ModWheel_int ch ival s = ModWheel_u8 ch (ucast ival) s \<and>
   fst (NoteON ch k v s) =
     (if global_running_status_tx s = (C_NOTE_ON OR ch) then [k, v]
      else [C_NOTE_ON OR ch, k, v]) \<and>
   fst (NoteOFF ch k v s) =
     (if global_running_status_tx s = (C_NOTE_OFF OR ch) then [k, v]
      else [C_NOTE_OFF OR ch, k, v]) \<and>
   fst (ControlChange ch k v s) =
     (if global_running_status_tx s = (C_CONTROL_CHANGE OR ch) then [k, v]
      else [C_CONTROL_CHANGE OR ch, k, v]) \<and>
   fst (ChannelAfterTouch ch v s) =
     (if global_running_status_tx s = (C_CHANNEL_AFTERTOUCH OR ch) then [v]
      else [C_CHANNEL_AFTERTOUCH OR ch, v])"
proof -
  let ?lsb = "mask_data (ucast val)" and ?msb = "mask_data (drop_bit 7 (ucast val))"
  have top: "?lsb AND CHANNEL_VOICE_MASK = 0" "?msb AND CHANNEL_VOICE_MASK = 0"
    by (simp_all add: mask_data_top CHANNEL_VOICE_MASK_def)
  have num: "uint ?lsb = uint val mod 128" "uint ?msb = uint val div 128 mod 128"
    by (simp_all only: uint_mask_data uint_promote uint_promote_shift)
  have pw: "fst (PitchWheel ch val s) =
        (if global_running_status_tx s = (C_PITCH_WHEEL OR ch) then [?lsb, ?msb]
         else [C_PITCH_WHEEL OR ch, ?lsb, ?msb])"
    by (simp add: PitchWheel_writes)
  have mw: "fst (ModWheel_u16 ch val s) =
        (if global_running_status_tx s = (C_CONTROL_CHANGE OR ch)
         then [CTL_LSB_MODWHEEL, ?lsb, CTL_MSB_MODWHEEL, ?msb]
         else [C_CONTROL_CHANGE OR ch, CTL_LSB_MODWHEEL, ?lsb, CTL_MSB_MODWHEEL, ?msb])"
    by (simp add: ModWheel_u16_writes)
  have wide: "\<exists>lsb msb.
      lsb AND CHANNEL_VOICE_MASK = 0 \<and> msb AND CHANNEL_VOICE_MASK = 0 \<and>
      uint lsb = uint val mod 128 \<and> uint msb = uint val div 128 mod 128 \<and>
      fst (PitchWheel ch val s) =
        (if global_running_status_tx s = (C_PITCH_WHEEL OR ch) then [lsb, msb]
         else [C_PITCH_WHEEL OR ch, lsb, msb]) \<and>
      fst (ModWheel_u16 ch val s) =
        (if global_running_status_tx s = (C_CONTROL_CHANGE OR ch)
         then [CTL_LSB_MODWHEEL, lsb, CTL_MSB_MODWHEEL, msb]
         else [C_CONTROL_CHANGE OR ch, CTL_LSB_MODWHEEL, lsb, CTL_MSB_MODWHEEL, msb])"
    using top num pw mw by blast
  let ?m = "mask_data (ucast v)"
  have "uint (ucast v :: cint) = uint v"
    by (rule uint_up_ucast) (simp add: is_up)
  then have m: "?m AND CHANNEL_VOICE_MASK = 0" "uint ?m = uint v mod 128"
    by (simp_all add: mask_data_top CHANNEL_VOICE_MASK_def uint_mask_data)
  have "fst (ModWheel_u8 ch v s) =
        (if global_running_status_tx s = (C_CONTROL_CHANGE OR ch) then [CTL_MSB_MODWHEEL, ?m]
         else [C_CONTROL_CHANGE OR ch, CTL_MSB_MODWHEEL, ?m])"
    by (simp add: ModWheel_u8_writes)
  with m have narrow: "\<exists>m.
      m AND CHANNEL_VOICE_MASK = 0 \<and> uint m = uint v mod 128 \<and>
      fst (ModWheel_u8 ch v s) =
        (if global_running_status_tx s = (C_CONTROL_CHANGE OR ch) then [CTL_MSB_MODWHEEL, m]
         else [C_CONTROL_CHANGE OR ch, CTL_MSB_MODWHEEL, m])"
    by blast
  show ?thesis
    using wide narrow
    by (simp add: NoteON_writes NoteOFF_writes ControlChange_writes ChannelAfterTouch_writes
          PitchWheel_i16_def ModWheel_int_def)
qed

text \<open>C4 as stated fails for \<open>NoteON\<close>: a key of 200 is written as \<open>0xC8\<close>, a byte with
  the top bit set.\<close>

theorem NoteON_writes_high_bit:
  "fst (NoteON 0 200 100 (SerialMidi storage_zero)) = [0x90, 0xC8, 0x64] \<and>
   (0xC8 :: u8) AND CHANNEL_VOICE_MASK = 0x80"
  by (simp add: NoteON_writes C_NOTE_ON_def CHANNEL_VOICE_MASK_def SerialMidi_def
        storage_zero_def)

text \<open>C6: for a signed value in -8192..8191 the signed \<open>PitchWheel\<close> calls the unsigned
  one with the value plus 8192, which lies in 0..16383; the data bytes are that wire
  value modulo 128 (LSB, written first) and divided by 128 (MSB). The signed value -8192
  gives the data bytes (0x00, 0x00), and 0 gives the wire value 8192, that is
  (0x00, 0x40).\<close>

theorem PitchWheel_signed:
  assumes "- 8192 \<le> sint val" and "sint val \<le> 8191"
  shows "PitchWheel_i16 ch val s = PitchWheel ch (word_of_int (sint val + 8192)) s \<and>
         uint (word_of_int (sint val + 8192) :: u16) = sint val + 8192 \<and>
         (\<exists>lsb msb.
            uint lsb = (sint val + 8192) mod 128 \<and>
            uint msb = (sint val + 8192) div 128 \<and>
            fst (PitchWheel_i16 ch val s) =
              (if global_running_status_tx s = (C_PITCH_WHEEL OR ch) then [lsb, msb]
               else [C_PITCH_WHEEL OR ch, lsb, msb])) \<and>
         fst (PitchWheel_i16 ch (- 8192) s) =
           (if global_running_status_tx s = (C_PITCH_WHEEL OR ch) then [0x00, 0x00]
            else [C_PITCH_WHEEL OR ch, 0x00, 0x00]) \<and>
         fst (PitchWheel_i16 ch 0 s) =
           (if global_running_status_tx s = (C_PITCH_WHEEL OR ch) then [0x00, 0x40]
            else [C_PITCH_WHEEL OR ch, 0x00, 0x40])"
proof -
  let ?pitch = "word_of_int (sint val + 0x2000) :: u16"
  let ?lsb = "mask_data (ucast ?pitch)" and ?msb = "mask_data (drop_bit 7 (ucast ?pitch))"
  have deleg: "PitchWheel_i16 ch val s = PitchWheel ch ?pitch s"
    by (simp only: PitchWheel_i16_def Let_def)
  have wire: "uint ?pitch = sint val + 8192"
    using assms by (rule recentre)
  have "uint ?lsb = uint ?pitch mod 128" "uint ?msb = uint ?pitch div 128 mod 128"
    by (simp_all only: uint_mask_data uint_promote uint_promote_shift)
  then have num: "uint ?lsb = (sint val + 8192) mod 128"
      "uint ?msb = (sint val + 8192) div 128"
    using assms by (simp_all only: wire) simp
  have "fst (PitchWheel_i16 ch val s) =
          (if global_running_status_tx s = (C_PITCH_WHEEL OR ch) then [?lsb, ?msb]
           else [C_PITCH_WHEEL OR ch, ?lsb, ?msb])"
    by (simp only: deleg PitchWheel_writes) simp
  with num have split: "\<exists>lsb msb.
            uint lsb = (sint val + 8192) mod 128 \<and>
            uint msb = (sint val + 8192) div 128 \<and>
            fst (PitchWheel_i16 ch val s) =
              (if global_running_status_tx s = (C_PITCH_WHEEL OR ch) then [lsb, msb]
               else [C_PITCH_WHEEL OR ch, lsb, msb])"
    by blast
  have low: "fst (PitchWheel_i16 ch (- 8192) s) =
           (if global_running_status_tx s = (C_PITCH_WHEEL OR ch) then [0x00, 0x00]
            else [C_PITCH_WHEEL OR ch, 0x00, 0x00])"
    by (simp add: PitchWheel_i16_def PitchWheel_writes mask_data_def CHANNEL_VOICE_MASK_def)
  have mid: "fst (PitchWheel_i16 ch 0 s) =
           (if global_running_status_tx s = (C_PITCH_WHEEL OR ch) then [0x00, 0x40]
            else [C_PITCH_WHEEL OR ch, 0x00, 0x40])"
    by (simp add: PitchWheel_i16_def PitchWheel_writes mask_data_def CHANNEL_VOICE_MASK_def)
  have deleg': "PitchWheel_i16 ch val s = PitchWheel ch (word_of_int (sint val + 8192)) s"
    using deleg by simp
  have wire': "uint (word_of_int (sint val + 8192) :: u16) = sint val + 8192"
    using wire by simp
  from deleg' wire' split low mid show ?thesis by (intro conjI)
qed

theorem PitchWheel_signed_witness:
  "sint (0 :: i16) = 0 \<and>
   fst (PitchWheel_i16 0 0 (SerialMidi storage_zero)) = [0xE0, 0x00, 0x40] \<and>
   sint (- 8192 :: i16) = - 8192 \<and>
   fst (PitchWheel_i16 0 (- 8192) (SerialMidi storage_zero)) = [0xE0, 0x00, 0x00] \<and>
   sint (8191 :: i16) = 8191 \<and>
   fst (PitchWheel_i16 0 8191 (SerialMidi storage_zero)) = [0xE0, 0x7F, 0x7F]"
  using PitchWheel_signed [where val = 0 and ch = 0 and s = "SerialMidi storage_zero"]
  by (simp add: PitchWheel_i16_def PitchWheel_writes mask_data_def macro_defs
        SerialMidi_def storage_zero_def)

lemma reachable_poll_bytes: "reachable s \<Longrightarrow> reachable (snd (poll_bytes bs s))"
proof (induction bs arbitrary: s)
  case Nil
  then show ?case by simp
next
  case (Cons b bs)
  have "reachable (snd (ReceiveParser (Some b) s))"
    using Cons.prems by (rule reachable.received)
  then have "reachable (snd (poll_bytes bs (snd (ReceiveParser (Some b) s))))"
    by (rule Cons.IH)
  then show ?case by (simp add: split_def Let_def)
qed

text \<open>C10, as the code has it: a call that consumes a second data byte leaves the receive
  running status equal to its command-family nibble, channel bits zero, and the
  pending-byte flag 0. When that status is not 0, the next data byte starts a new
  message under it: the byte is stored as first data byte, the flag is set, no delegate
  is called, exactly as if the status byte of that family with channel 0 had been
  received before it. When that status is 0 (a second byte consumed after the \<open>0xF2\<close>
  branch), the next data byte is discarded.\<close>

theorem second_byte_masks_channel:
  assumes "reachable s" and "global_3rd_byte_flag s = 1"
    and "c AND CHANNEL_VOICE_MASK = 0" and "d AND CHANNEL_VOICE_MASK = 0"
    and "s' = snd (ReceiveParser (Some c) s)"
  shows "global_running_status_rx s' = global_running_status_rx s AND 0xF0 \<and>
         global_running_status_rx s' AND 0x0F = 0 \<and>
         global_3rd_byte_flag s' = 0 \<and>
         (global_running_status_rx s' \<noteq> 0 \<longrightarrow>
            ReceiveParser (Some d) s' =
              ([], s'\<lparr>global_3rd_byte_flag := 1, global_midi_c2 := d\<rparr>) \<and>
            poll_bytes [global_running_status_rx s', d] s' = ReceiveParser (Some d) s') \<and>
         (global_running_status_rx s' = 0 \<longrightarrow> ReceiveParser (Some d) s' = ([], s'))"
proof -
  have c: "c AND 0x80 = 0" and d: "d AND 0x80 = 0"
    using assms(3,4) by (simp_all add: CHANNEL_VOICE_MASK_def)
  let ?rx = "global_running_status_rx s AND 0xF0"
  have s': "s' = s\<lparr>global_3rd_byte_flag := 0, global_midi_c3 := c,
                    global_running_status_rx := ?rx\<rparr>"
    using parse_second_state [OF c assms(2)] assms(5) by simp
  have rx: "global_running_status_rx s' = ?rx" and flag: "global_3rd_byte_flag s' = 0"
    by (simp_all add: s')
  have low: "global_running_status_rx s' AND 0x0F = 0"
    by (simp only: rx hi_nibble_low)
  have inv: "decoder_inv s" using assms(1) by (rule reachable_decoder_inv)
  then have fam: "global_running_status_rx s < 0xC0 \<or>
      (0xE0 \<le> global_running_status_rx s \<and> global_running_status_rx s < 0xF0)"
    using assms(2) by (simp add: decoder_inv_def)
  then have fam': "global_running_status_rx s' < 0xC0 \<or>
      (0xE0 \<le> global_running_status_rx s' \<and> global_running_status_rx s' < 0xF0)"
    unfolding rx using hi_nibble_order(1,2,3) [of "global_running_status_rx s"] by blast
  have next_byte: "ReceiveParser (Some d) s' =
              ([], s'\<lparr>global_3rd_byte_flag := 1, global_midi_c2 := d\<rparr>)"
    if nz: "global_running_status_rx s' \<noteq> 0"
    using d _ nz fam' by (rule parse_first_of_two) (simp add: flag)
  have as_status: "poll_bytes [global_running_status_rx s', d] s' = ReceiveParser (Some d) s'"
    if nz: "global_running_status_rx s' \<noteq> 0"
  proof -
    from inv have "global_running_status_rx s = 0 \<or>
        (0x80 \<le> global_running_status_rx s \<and> global_running_status_rx s < 0xF8)"
      by (simp add: decoder_inv_def)
    with nz have "0x80 \<le> global_running_status_rx s" by (auto simp add: rx)
    then have "0x80 \<le> global_running_status_rx s'"
      unfolding rx by (rule hi_nibble_order(4))
    then have bit7: "global_running_status_rx s' AND 0x80 \<noteq> 0" by (rule ge_status_byte)
    have lt: "global_running_status_rx s' < 0xF8" "global_running_status_rx s' \<noteq> 0xF6"
      using fam' by (auto simp add: word_le_nat_alt word_less_nat_alt)
    have "ReceiveParser (Some (global_running_status_rx s')) s' =
            ([], s'\<lparr>global_running_status_rx := global_running_status_rx s',
                    global_3rd_byte_flag := 0\<rparr>)"
      using bit7 lt by (rule parse_status)
    also have "s'\<lparr>global_running_status_rx := global_running_status_rx s',
                   global_3rd_byte_flag := 0\<rparr> = s'"
      by (simp add: s')
    finally have "ReceiveParser (Some (global_running_status_rx s')) s' = ([], s')" .
    then show ?thesis
      using poll_bytes_append [of "[global_running_status_rx s']" "[d]" s']
      by (simp only: append.simps poll_bytes_single fst_conv snd_conv) simp
  qed
  have discard: "ReceiveParser (Some d) s' = ([], s')"
    if "global_running_status_rx s' = 0"
    using d _ that by (rule parse_discard) (simp add: flag)
  from rx low flag next_byte as_status discard show ?thesis by blast
qed

theorem second_byte_masks_channel_witness:
  "reachable (snd (poll_bytes [0x95, 0x3C] (SerialMidi storage_zero))) \<and>
   global_3rd_byte_flag (snd (poll_bytes [0x95, 0x3C] (SerialMidi storage_zero))) = 1 \<and>
   global_running_status_rx (snd (poll_bytes [0x95, 0x3C, 0x64] (SerialMidi storage_zero))) =
     0x90 \<and>
   global_3rd_byte_flag (snd (poll_bytes [0x95, 0x3C, 0x64] (SerialMidi storage_zero))) = 0 \<and>
   ReceiveParser (Some 0x3E) (snd (poll_bytes [0x95, 0x3C, 0x64] (SerialMidi storage_zero))) =
     ([], (SerialMidi storage_zero)
            \<lparr>global_running_status_rx := 0x90, global_midi_c3 := 0x64,
             global_3rd_byte_flag := 1, global_midi_c2 := 0x3E\<rparr>)"
proof -
  let ?s = "snd (poll_bytes [0x95, 0x3C] (SerialMidi storage_zero))"
  have r: "reachable ?s"
    by (intro reachable_poll_bytes reachable.constructed)
  have e: "?s = (SerialMidi storage_zero)
                  \<lparr>global_running_status_rx := 0x95, global_3rd_byte_flag := 1,
                   global_midi_c2 := 0x3C\<rparr>"
    using poll_note_on_first [of "0x95" "0x3C" "SerialMidi storage_zero"] by simp
  have f: "snd (poll_bytes [0x95, 0x3C, 0x64] (SerialMidi storage_zero)) =
             snd (ReceiveParser (Some 0x64) ?s)"
    using poll_bytes_append [of "[0x95, 0x3C]" "[0x64]" "SerialMidi storage_zero"]
    by (simp only: append.simps poll_bytes_single snd_conv)
  have g: "snd (ReceiveParser (Some 0x64) ?s) =
             (SerialMidi storage_zero)
               \<lparr>global_running_status_rx := 0x90, global_3rd_byte_flag := 0,
                global_midi_c2 := 0x3C, global_midi_c3 := 0x64\<rparr>"
    unfolding e by (simp add: ReceiveParser_def Let_def macro_defs)
  have fl: "global_3rd_byte_flag ?s = 1" unfolding e by simp
  note t = second_byte_masks_channel
             [OF r fl, where c = "0x64" and d = "0x3E"
                and s' = "snd (ReceiveParser (Some 0x64) ?s)"]
  have "ReceiveParser (Some 0x3E) (snd (ReceiveParser (Some 0x64) ?s)) =
          ([], (snd (ReceiveParser (Some 0x64) ?s))
                 \<lparr>global_3rd_byte_flag := 1, global_midi_c2 := 0x3E\<rparr>)"
    using t unfolding g by (simp add: CHANNEL_VOICE_MASK_def)
  then show ?thesis
    using r fl unfolding f g by simp
qed

text \<open>C10 as stated fails after the \<open>0xF2\<close> branch: of the bytes \<open>[0xF2, 1, 2, 3]\<close> the
  third is consumed as a second data byte, and the fourth is then discarded; it does not
  start a message.\<close>

theorem data_after_0xF2_discarded:
  "global_3rd_byte_flag (snd (poll_bytes [0xF2, 1] (SerialMidi storage_zero))) = 1 \<and>
   snd (poll_bytes [0xF2, 1, 2] (SerialMidi storage_zero)) =
     (SerialMidi storage_zero)\<lparr>global_midi_c2 := 1, global_midi_c3 := 2\<rparr> \<and>
   ReceiveParser (Some 3) (snd (poll_bytes [0xF2, 1, 2] (SerialMidi storage_zero))) =
     ([], snd (poll_bytes [0xF2, 1, 2] (SerialMidi storage_zero)))"
  by (simp add: ReceiveParser_def Let_def macro_defs SerialMidi_def storage_zero_def)

end
